theory Spec2Isabelle
  imports Main "HOL-Library.Sublist"
begin

section \<open>Go values used by package core\<close>

text \<open>
  A Go \<^verbatim>\<open>error\<close> value. \<^verbatim>\<open>fmt.Errorf\<close> builds an error from its format and its arguments
  (strings and errors here),
  \<^verbatim>\<open>time.Parse\<close> returns a parse error that remembers layout and value, and the
  collaborators (page fetcher, filing builder, HTTP client, decoders) return errors of
  their own, which the package only passes on or logs.
\<close>

datatype error =
    Errorf string "(string + error) list"
  | ParseError string string
  | Foreign string

text \<open>
  A \<^verbatim>\<open>time.Time\<close> is an instant; it is modelled by its number of nanoseconds since
  the Unix epoch. \<^verbatim>\<open>t.Before(u)\<close> compares instants.
\<close>

type_synonym Time = int

definition Before :: "Time \<Rightarrow> Time \<Rightarrow> bool" where
  "Before t u = (t < u)"

subsection \<open>\<^verbatim>\<open>time.Parse\<close> at the layout \<^verbatim>\<open>2006-01-02\<close>\<close>

text \<open>
  The package calls \<^verbatim>\<open>time.Parse("2006-01-02", stoptime)\<close>. The layout has three chunks:
  a long year, a zero-padded month after the literal \<^verbatim>\<open>-\<close>, a zero-padded day after
  another \<^verbatim>\<open>-\<close>. The library reads the year as exactly four bytes starting with a
  digit and converted by \<^verbatim>\<open>atoi\<close>, month and day by \<^verbatim>\<open>getnum\<close> with a fixed width of
  two digits, rejects text left over, checks the month range while parsing and the day
  against the length of the month afterwards, and returns midnight UTC of that date.
  \<^verbatim>\<open>atoi\<close> is only applied to those four bytes, so the overflow check of \<^verbatim>\<open>leadingInt\<close>
  never fires and is left out.
\<close>

definition isDigit :: "string \<Rightarrow> nat \<Rightarrow> bool" where
  "isDigit s i = (i < length s \<and> (48::nat) \<le> of_char (s ! i) \<and> of_char (s ! i) \<le> (57::nat))"

definition digitVal :: "char \<Rightarrow> int" where
  "digitVal c = int (of_char c) - 48"

fun leadingInt :: "int \<Rightarrow> string \<Rightarrow> int \<times> string" where
  "leadingInt x [] = (x, [])"
| "leadingInt x (c # s) =
     (if (48::nat) \<le> of_char c \<and> of_char c \<le> (57::nat)
      then leadingInt (x * 10 + digitVal c) s
      else (x, c # s))"

definition atoi :: "string \<Rightarrow> int option" where
  "atoi s =
     (let neg = (s \<noteq> [] \<and> hd s = CHR ''-'');
          s1 = (if s \<noteq> [] \<and> (hd s = CHR ''-'' \<or> hd s = CHR ''+'') then tl s else s);
          (q, rem) = leadingInt 0 s1
      in if rem \<noteq> [] then None else Some (if neg then - q else q))"

definition getnum :: "string \<Rightarrow> bool \<Rightarrow> (int \<times> string) option" where
  "getnum s fixed =
     (if \<not> isDigit s 0 then None
      else if \<not> isDigit s 1 then
        (if fixed then None else Some (digitVal (s ! 0), drop 1 s))
      else Some (digitVal (s ! 0) * 10 + digitVal (s ! 1), drop 2 s))"

definition skip :: "string \<Rightarrow> char \<Rightarrow> string option" where
  "skip v c = (case v of [] \<Rightarrow> None | d # rest \<Rightarrow> if d \<noteq> c then None else Some rest)"

definition isLeap :: "int \<Rightarrow> bool" where
  "isLeap year = (year mod 4 = 0 \<and> (year mod 100 \<noteq> 0 \<or> year mod 400 = 0))"

definition daysBefore :: "int list" where
  "daysBefore = [0, 31, 59, 90, 120, 151, 181, 212, 243, 273, 304, 334, 365]"

definition daysIn :: "int \<Rightarrow> int \<Rightarrow> int" where
  "daysIn m year =
     (if m = 2 \<and> isLeap year then 29
      else daysBefore ! nat m - daysBefore ! nat (m - 1))"

text \<open>
  \<^verbatim>\<open>time.Date(year, month, day, 0, 0, 0, 0, time.UTC)\<close> for a month in 1..12: the days of
  the proleptic Gregorian calendar before the year, the days before the month, the leap
  day, the days before today; 719162 days lie between 0001-01-01 and 1970-01-01.
\<close>

definition time_Date :: "int \<Rightarrow> int \<Rightarrow> int \<Rightarrow> Time" where
  "time_Date year month day =
     (let y = year - 1;
          d = 365 * y + y div 4 - y div 100 + y div 400
              + daysBefore ! nat (month - 1)
              + (if isLeap year \<and> 3 \<le> month then 1 else 0)
              + (day - 1) - 719162
      in d * 86400 * 1000000000)"

definition time_Parse :: "string \<Rightarrow> error + Time" where
  "time_Parse v =
     (let bad = Inl (ParseError ''2006-01-02'' v) in
      if length v < 4 \<or> \<not> isDigit v 0 then bad
      else
       (case atoi (take 4 v) of
          None \<Rightarrow> bad
        | Some year \<Rightarrow>
           (case skip (drop 4 v) (CHR ''-'') of
              None \<Rightarrow> bad
            | Some v1 \<Rightarrow>
               (case getnum v1 True of
                  None \<Rightarrow> bad
                | Some (month, v2) \<Rightarrow>
                   (if month \<le> 0 \<or> 12 < month then bad
                    else
                     (case skip v2 (CHR ''-'') of
                        None \<Rightarrow> bad
                      | Some v3 \<Rightarrow>
                         (case getnum v3 True of
                            None \<Rightarrow> bad
                          | Some (day, v4) \<Rightarrow>
                             (if v4 \<noteq> [] then bad
                              else if day < 1 \<or> daysIn month year < day then bad
                              else Inr (time_Date year month day)))))))))"

section \<open>Filer models\<close>

text \<open>\<^verbatim>\<open>Company\<close> is a simple struct for a single company.\<close>

record Company =
  CIK :: string
  Currency :: string
  Date :: string
  Exchange :: string
  ExchangeName :: string
  ExchangeSegment :: string
  ExchangeSegmentName :: string
  ExchangeSuffix :: string
  FIGI :: string
  IEXID :: string
  IsEnabled :: bool
  LEI :: string
  Name :: string
  Region :: string
  Symbol :: string
  Type :: string

text \<open>The decoded feed: \<^verbatim>\<open>rssFeed\<close> holds the \<^verbatim>\<open>company-info\<close> element.\<close>

record secFilerInfo =
  CIK :: string
  SIC :: string
  SICDesc :: string
  Name :: string

record rssFeed =
  Info :: secFilerInfo

text \<open>\<^verbatim>\<open>model.Filer\<close>, with the five fields the package assigns.\<close>

record Filer =
  CIK :: string
  Symbol :: string
  SIC :: string
  SICDescription :: string
  Name :: string

section \<open>The filing model\<close>

text \<open>
  \<^verbatim>\<open>model.Filing\<close> is declared in the imported model package; the traversal reads its
  form type, timestamp and symbol and writes its list of symbols. The other fields of
  the struct are the extension of the record. \<^verbatim>\<open>SECFiling\<close> pairs a filing with its
  documents; a successful build yields a filing record, so the pointer of the source is
  the record itself.
\<close>

record Filing =
  FormType :: string
  EdgarTime :: Time
  Symbol :: string
  AllSymbols :: "string list"

record ('f, 'd) SECFiling =
  Filing :: "'f Filing_scheme"
  Docs :: "'d list"

section \<open>Effects\<close>

text \<open>
  What a call does beyond returning: the requests it builds and sends, the pages it asks
  the fetcher for, the builds it asks for, the lines it logs and prints. Every operation
  returns the list of its events in order next to its result.
\<close>

datatype 'a arg = S string | E error | V 'a

datatype 'a event =
    HttpNewRequest string string
  | HttpDo string
  | BodyClose
  | GetPage string int
  | BuildFiling string string
  | LogPrintln "'a arg list"
  | FmtPrintln "'a arg list"

section \<open>Filer methods\<close>

text \<open>
  A Go \<^verbatim>\<open>map[string]string\<close> is the list of its entries, with distinct keys, in the order
  in which this run of \<^verbatim>\<open>range\<close> visits them. Indexing a key that is absent gives the
  empty string.
\<close>

type_synonym gomap = "(string \<times> string) list"

definition index :: "gomap \<Rightarrow> string \<Rightarrow> string" where
  "index m k = (case map_of m k of None \<Rightarrow> [] | Some v \<Rightarrow> v)"

text \<open>\<^verbatim>\<open>url.Values\<close> maps a key to its list of values; \<^verbatim>\<open>Add\<close> appends to that list.\<close>

type_synonym Values = "string \<rightharpoonup> string list"

definition Values_Add :: "Values \<Rightarrow> string \<Rightarrow> string \<Rightarrow> Values" where
  "Values_Add vs k v = vs(k \<mapsto> (case vs k of None \<Rightarrow> [] | Some l \<Rightarrow> l) @ [v])"

text \<open>
  The libraries the filer methods call: the encoding of the query, the construction of a
  request and the setting of a header on it, the client, the reading of a body, and the
  two decoders (the XML decoder with its charset reader set). Requests and responses are
  the libraries' own types.
\<close>

record ('req, 'resp) http =
  Values_Encode :: "Values \<Rightarrow> string"
  http_NewRequest :: "string \<Rightarrow> string \<Rightarrow> error + 'req"
  Header_Set :: "'req \<Rightarrow> string \<Rightarrow> string \<Rightarrow> 'req"
  client_Do :: "'req \<Rightarrow> error + 'resp"
  io_ReadAll :: "'resp \<Rightarrow> error + string"
  json_Unmarshal :: "string \<Rightarrow> error + Company list"
  xml_Decode :: "'resp \<Rightarrow> error + rssFeed"

definition iexSymbolsURL :: string where
  "iexSymbolsURL = ''https://api.iex.cloud/v1/data/core/REF_DATA/symbols''"

text \<open>The message of the error for a missing token; \<open>CHR 0x27\<close> is the single quote.\<close>

definition tokenMessage :: string where
  "tokenMessage =
     ''To access the endpoint at https://api.iex.cloud, you must include the ''
       @ [CHR 0x27] @ ''token'' @ [CHR 0x27] @ '' in the query parameters.''"

text \<open>\<^verbatim>\<open>fmt.Sprintf(secCompanyURL, symbol)\<close>: the symbol in the place of \<^verbatim>\<open>%s\<close>.\<close>

definition secCompanyURL :: "string \<Rightarrow> string" where
  "secCompanyURL symbol =
     ''https://www.sec.gov/cgi-bin/browse-edgar?action=getcompany&CIK='' @ symbol
       @ ''&start=0&count=1&output=atom''"

text \<open>
  The result is the pair the function returns, a slice (\<^verbatim>\<open>nil\<close> and the empty slice are
  both the empty list) and an error (\<^verbatim>\<open>nil\<close> is \<open>None\<close>), next to the events of the call.
\<close>

definition GetPublicCompaniesWithHeaders ::
  "('req, 'resp) http \<Rightarrow> gomap \<Rightarrow> gomap \<Rightarrow> (Company list \<times> error option) \<times> unit event list" where
  "GetPublicCompaniesWithHeaders H queryParameters headers =
     (if index queryParameters ''token'' = [] then
        (([], Some (Errorf tokenMessage [])), [])
      else
        (let parameters = fold (\<lambda>(k, v) ps. Values_Add ps k v) queryParameters Map.empty;
             url = iexSymbolsURL @ ''?'' @ Values_Encode H parameters
         in case http_NewRequest H ''GET'' url of
              Inl err \<Rightarrow> (([], Some err), [HttpNewRequest ''GET'' url])
            | Inr req0 \<Rightarrow>
               (let req = fold (\<lambda>(k, v) r. Header_Set H r k v) headers req0
                in case client_Do H req of
                     Inl err \<Rightarrow> (([], Some err), [HttpNewRequest ''GET'' url, HttpDo url])
                   | Inr resp \<Rightarrow>
                      (case io_ReadAll H resp of
                         Inl err \<Rightarrow>
                           (([], Some (Errorf ''error reading response body: %s'' [Inr err])),
                            [HttpNewRequest ''GET'' url, HttpDo url,
                             FmtPrintln [S ''Error reading response body:'', E err], BodyClose])
                       | Inr body \<Rightarrow>
                          (case json_Unmarshal H body of
                             Inl err \<Rightarrow>
                               (([], Some (Errorf ''error unmarshaling JSON: %s'' [Inl body])),
                                [HttpNewRequest ''GET'' url, HttpDo url,
                                 FmtPrintln [S ''Error unmarshaling JSON:'', E err], BodyClose])
                           | Inr result \<Rightarrow>
                               ((result, None),
                                [HttpNewRequest ''GET'' url, HttpDo url, BodyClose]))))))"

definition GetPublicCompanies ::
  "('req, 'resp) http \<Rightarrow> (Company list \<times> error option) \<times> unit event list" where
  "GetPublicCompanies H = GetPublicCompaniesWithHeaders H [] []"

definition GetFilerWithHeaders ::
  "('req, 'resp) http \<Rightarrow> string \<Rightarrow> gomap \<Rightarrow> (Filer option \<times> error option) \<times> unit event list" where
  "GetFilerWithHeaders H symbol headers =
     (let url = secCompanyURL symbol
      in case http_NewRequest H ''GET'' url of
           Inl err \<Rightarrow> ((None, Some err), [HttpNewRequest ''GET'' url])
         | Inr req0 \<Rightarrow>
            (let req = fold (\<lambda>(k, v) r. Header_Set H r k v) headers req0
             in case client_Do H req of
                  Inl err \<Rightarrow> ((None, Some err), [HttpNewRequest ''GET'' url, HttpDo url])
                | Inr resp \<Rightarrow>
                   (case xml_Decode H resp of
                      Inl err \<Rightarrow>
                        ((None, Some err), [HttpNewRequest ''GET'' url, HttpDo url, BodyClose])
                    | Inr feed \<Rightarrow>
                        if secFilerInfo.CIK (Info feed) = [] then
                          ((None, Some (Errorf ''no cik found in response data'' [])),
                           [HttpNewRequest ''GET'' url, HttpDo url, BodyClose])
                        else if secFilerInfo.Name (Info feed) = [] then
                          ((None, Some (Errorf ''no name found in response data'' [])),
                           [HttpNewRequest ''GET'' url, HttpDo url, BodyClose])
                        else
                          ((Some \<lparr>Filer.CIK = secFilerInfo.CIK (Info feed),
                                   Filer.Symbol = symbol,
                                   Filer.SIC = secFilerInfo.SIC (Info feed),
                                   Filer.SICDescription = secFilerInfo.SICDesc (Info feed),
                                   Filer.Name = secFilerInfo.Name (Info feed)\<rparr>, None),
                           [HttpNewRequest ''GET'' url, HttpDo url, BodyClose]))))"

definition GetFiler ::
  "('req, 'resp) http \<Rightarrow> string \<Rightarrow> (Filer option \<times> error option) \<times> unit event list" where
  "GetFiler H symbol = GetFilerWithHeaders H symbol []"

section \<open>Filings\<close>

text \<open>
  The collaborators of \<^verbatim>\<open>GetFilings\<close> that live in other files of the package: the page
  fetcher with its retry budget, the two link extractors and the filing builder. They are
  parameters of the traversal; within one call a collaborator answers the same arguments
  in the same way. A fetch or a build either fails with an error or gives its value.
\<close>

record ('f, 'd) pages =
  getPage :: "string \<Rightarrow> int \<Rightarrow> error + string"
  findListURLs :: "string \<Rightarrow> string list"
  findIdxURL :: "string \<Rightarrow> string"
  buildFiling :: "string \<Rightarrow> string \<Rightarrow> error + ('f, 'd) SECFiling"

text \<open>The state of the loop: the filings accumulated and the events so far.\<close>

type_synonym ('f, 'd) acc = "('f, 'd) SECFiling list \<times> ('f, 'd) SECFiling event list"

text \<open>One iteration either goes on to the next URL or returns from the function.\<close>

datatype 's ctrl = Continue 's | Return 's

fun state_of :: "'s ctrl \<Rightarrow> 's" where
  "state_of (Continue s) = s"
| "state_of (Return s) = s"

definition cutoff :: "Time option \<Rightarrow> Time \<Rightarrow> bool" where
  "cutoff stop t = (case stop of None \<Rightarrow> False | Some c \<Rightarrow> Before t c)"

definition stamp :: "('f, 'd) SECFiling \<Rightarrow> ('f, 'd) SECFiling" where
  "stamp filing = filing\<lparr>Filing := (Filing filing)\<lparr>AllSymbols := [Filing.Symbol (Filing filing)]\<rparr>\<rparr>"

definition GetFilings_body ::
  "('f, 'd) pages \<Rightarrow> string \<Rightarrow> string \<Rightarrow> Time option \<Rightarrow> string \<Rightarrow> ('f, 'd) acc
     \<Rightarrow> ('f, 'd) acc ctrl" where
  "GetFilings_body P cik formtype stop u st =
     (case st of (filings, evs) \<Rightarrow>
      (case getPage P u 2 of
         Inl getErr \<Rightarrow>
           Continue (filings, evs @ [GetPage u 2, LogPrintln [S ''couldnt find page:'', E getErr]])
       | Inr docsPage \<Rightarrow>
          (let idxURL = findIdxURL P docsPage in
           if idxURL = [] then
             Continue (filings, evs @ [GetPage u 2, LogPrintln [S ''couldnt regex idx url'']])
           else
             (case buildFiling P cik idxURL of
                Inl buildErr \<Rightarrow>
                  Continue (filings,
                    evs @ [GetPage u 2, BuildFiling cik idxURL, LogPrintln [E buildErr]])
              | Inr filing \<Rightarrow>
                  if formtype \<noteq> [] \<and> FormType (Filing filing) \<noteq> formtype then
                    Continue (filings, evs @ [GetPage u 2, BuildFiling cik idxURL])
                  else if cutoff stop (EdgarTime (Filing filing)) then
                    Return (filings, evs @ [GetPage u 2, BuildFiling cik idxURL])
                  else
                    Continue (filings @ [stamp filing],
                      evs @ [GetPage u 2, BuildFiling cik idxURL, FmtPrintln [V (stamp filing)]])))))"

fun GetFilings_range ::
  "('f, 'd) pages \<Rightarrow> string \<Rightarrow> string \<Rightarrow> Time option \<Rightarrow> string list \<Rightarrow> ('f, 'd) acc
     \<Rightarrow> ('f, 'd) acc ctrl" where
  "GetFilings_range P cik formtype stop [] st = Continue st"
| "GetFilings_range P cik formtype stop (u # urls) st =
     (case GetFilings_body P cik formtype stop u st of
        Return st' \<Rightarrow> Return st'
      | Continue st' \<Rightarrow> GetFilings_range P cik formtype stop urls st')"

definition dirURL :: "string \<Rightarrow> string" where
  "dirURL cik = ''https://www.sec.gov/Archives/edgar/data/'' @ cik"

text \<open>The first lines of \<^verbatim>\<open>GetFilings\<close>: the cutoff, when a stop time is given.\<close>

definition GetFilings_stop :: "string \<Rightarrow> error + Time option" where
  "GetFilings_stop stoptime =
     (if stoptime \<noteq> [] then
        (case time_Parse stoptime of Inl err \<Rightarrow> Inl err | Inr t \<Rightarrow> Inr (Some t))
      else Inr None)"

definition GetFilings ::
  "('f, 'd) pages \<Rightarrow> string \<Rightarrow> string \<Rightarrow> string
     \<Rightarrow> (('f, 'd) SECFiling list \<times> error option) \<times> ('f, 'd) SECFiling event list" where
  "GetFilings P cik formtype stoptime =
     (case GetFilings_stop stoptime of
        Inl err \<Rightarrow> (([], Some err), [])
      | Inr stop \<Rightarrow>
         (case getPage P (dirURL cik) 2 of
            Inl err \<Rightarrow> (([], Some err), [GetPage (dirURL cik) 2])
          | Inr dirPage \<Rightarrow>
             (let urls = findListURLs P dirPage;
                  st = state_of (GetFilings_range P cik formtype stop urls
                         ([], [GetPage (dirURL cik) 2]))
              in ((fst st, None), snd st))))"

section \<open>What the traversal returns, said directly\<close>

text \<open>
  The traversal is compared with a description of its result that has no loop: the filing
  of a URL, when page, index link and build all succeed; the form-type test; and the
  filings selected from a list of URLs, which are the successful ones that pass the
  form-type test, up to the first one before the cutoff, each with its symbols stamped.
\<close>

definition item :: "('f, 'd) pages \<Rightarrow> string \<Rightarrow> string \<Rightarrow> ('f, 'd) SECFiling option" where
  "item P cik u =
     (case getPage P u 2 of
        Inl getErr \<Rightarrow> None
      | Inr docsPage \<Rightarrow>
          if findIdxURL P docsPage = [] then None
          else (case buildFiling P cik (findIdxURL P docsPage) of
                  Inl buildErr \<Rightarrow> None
                | Inr filing \<Rightarrow> Some filing))"

definition passes :: "string \<Rightarrow> ('f, 'd) SECFiling \<Rightarrow> bool" where
  "passes formtype filing = (formtype = [] \<or> FormType (Filing filing) = formtype)"

definition selected ::
  "('f, 'd) pages \<Rightarrow> string \<Rightarrow> string \<Rightarrow> Time option \<Rightarrow> string list \<Rightarrow> ('f, 'd) SECFiling list" where
  "selected P cik formtype stop urls =
     map stamp (takeWhile (\<lambda>f. \<not> cutoff stop (EdgarTime (Filing f)))
        (filter (passes formtype) (List.map_filter (item P cik) urls)))"

text \<open>The shape of a date: four digits, two digits and two digits, with hyphens between.\<close>

definition isDigitChar :: "char \<Rightarrow> bool" where
  "isDigitChar c = ((48::nat) \<le> of_char c \<and> of_char c \<le> (57::nat))"

definition date_shape :: "string \<Rightarrow> bool" where
  "date_shape v =
     (case v of
        [y1, y2, y3, y4, h1, m1, m2, h2, d1, d2] \<Rightarrow>
          isDigitChar y1 \<and> isDigitChar y2 \<and> isDigitChar y3 \<and> isDigitChar y4 \<and> h1 = CHR ''-''
          \<and> isDigitChar m1 \<and> isDigitChar m2 \<and> h2 = CHR ''-'' \<and> isDigitChar d1 \<and> isDigitChar d2
      | _ \<Rightarrow> False)"

section \<open>A filer with three filings\<close>

text \<open>
  The directory of filer 320193 lists A, B and C, filed on 2023-03-01, 2023-02-01 and
  2023-01-01. In the second set of pages the listing of B cannot be fetched; in the third
  the directory page has no links; in the fourth every build gives a filing of MSFT that
  comes with a stale list of symbols; in the fifth every build gives a filing whose symbol
  is empty.
\<close>

definition ex_filing :: "string \<Rightarrow> Time \<Rightarrow> (unit, unit) SECFiling" where
  "ex_filing ft t =
     \<lparr>Filing = \<lparr>FormType = ft, EdgarTime = t, Filing.Symbol = ''AAPL'', AllSymbols = []\<rparr>,
      Docs = []\<rparr>"

definition ex_pages :: "(unit, unit) pages" where
  "ex_pages =
     \<lparr>getPage = (\<lambda>u n.
        if u = dirURL ''320193'' then Inr ''dir''
        else if u = ''A'' then Inr ''pageA''
        else if u = ''B'' then Inr ''pageB''
        else if u = ''C'' then Inr ''pageC''
        else Inl (Foreign ''not found'')),
      findListURLs = (\<lambda>p. if p = ''dir'' then [''A'', ''B'', ''C''] else []),
      findIdxURL = (\<lambda>p.
        if p = ''pageA'' then ''idxA''
        else if p = ''pageB'' then ''idxB''
        else if p = ''pageC'' then ''idxC''
        else []),
      buildFiling = (\<lambda>cik idx.
        if idx = ''idxA'' then Inr (ex_filing ''10-K'' (time_Date 2023 3 1))
        else if idx = ''idxB'' then Inr (ex_filing ''8-K'' (time_Date 2023 2 1))
        else if idx = ''idxC'' then Inr (ex_filing ''10-K'' (time_Date 2023 1 1))
        else Inl (Foreign ''no index''))\<rparr>"

definition ex_pages_B_down :: "(unit, unit) pages" where
  "ex_pages_B_down =
     ex_pages\<lparr>getPage := (\<lambda>u n. if u = ''B'' then Inl (Foreign ''timeout'') else getPage ex_pages u n)\<rparr>"

definition ex_pages_empty :: "(unit, unit) pages" where
  "ex_pages_empty = ex_pages\<lparr>findListURLs := (\<lambda>p. [])\<rparr>"

definition ex_pages_syms :: "(unit, unit) pages" where
  "ex_pages_syms =
     ex_pages\<lparr>buildFiling := (\<lambda>cik idx.
        Inr \<lparr>Filing = \<lparr>FormType = ''10-Q'', EdgarTime = time_Date 2023 3 1,
                        Filing.Symbol = ''MSFT'', AllSymbols = [''OLD'', ''STALE'']\<rparr>,
             Docs = []\<rparr>)\<rparr>"

definition ex_pages_nosym :: "(unit, unit) pages" where
  "ex_pages_nosym =
     ex_pages\<lparr>buildFiling := (\<lambda>cik idx.
        Inr \<lparr>Filing = \<lparr>FormType = ''10-Q'', EdgarTime = time_Date 2023 3 1,
                        Filing.Symbol = [], AllSymbols = []\<rparr>,
             Docs = []\<rparr>)\<rparr>"

text \<open>
  Libraries that answer every request, with a feed that holds the given company info.
\<close>

definition ex_http :: "secFilerInfo \<Rightarrow> (unit, unit) http" where
  "ex_http info =
     \<lparr>Values_Encode = (\<lambda>vs. []),
      http_NewRequest = (\<lambda>m u. Inr ()),
      Header_Set = (\<lambda>r k v. r),
      client_Do = (\<lambda>r. Inr ()),
      io_ReadAll = (\<lambda>r. Inr []),
      json_Unmarshal = (\<lambda>b. Inr []),
      xml_Decode = (\<lambda>r. Inr \<lparr>Info = info\<rparr>)\<rparr>"

definition ex_info :: "string \<Rightarrow> string \<Rightarrow> secFilerInfo" where
  "ex_info cik name = \<lparr>secFilerInfo.CIK = cik, SIC = [], SICDesc = [], secFilerInfo.Name = name\<rparr>"

section \<open>Lemmas on the date parser\<close>

lemma skip_Some: "skip v c = Some r \<Longrightarrow> v = c # r"
  by (auto simp: skip_def split: list.splits if_splits)

lemma getnum_fixed:
  "getnum s True = Some (n, r) \<Longrightarrow> \<exists>a b. s = a # b # r \<and> isDigitChar a \<and> isDigitChar b"
  apply (cases s; simp add: getnum_def isDigit_def isDigitChar_def split: if_splits)
  subgoal for a s'
    by (cases s'; simp)
  done

lemma atoi_four:
  assumes "4 \<le> length v" "isDigit v 0" "atoi (take 4 v) = Some y"
  shows "\<exists>a b c d r. v = a # b # c # d # r \<and> isDigitChar a \<and> isDigitChar b \<and> isDigitChar c \<and> isDigitChar d"
proof -
  from assms(1) obtain a b c d r where v: "v = a # b # c # d # r"
    by (cases v; simp; rename_tac v1; case_tac v1; simp; rename_tac v2; case_tac v2; simp; rename_tac v3; case_tac v3; simp)
  from assms(2) v have a: "isDigitChar a" by (simp add: isDigit_def isDigitChar_def)
  then have na: "a \<noteq> CHR ''-''" "a \<noteq> CHR ''+''" by (auto simp: isDigitChar_def)
  from assms(3) v na have "snd (leadingInt 0 [a, b, c, d]) = []"
    by (simp add: atoi_def split: prod.splits if_splits)
  then have "isDigitChar b \<and> isDigitChar c \<and> isDigitChar d"
    by (simp add: isDigitChar_def split: if_splits)
  with v a show ?thesis by blast
qed

lemma time_Parse_shape: "time_Parse v = Inr t \<Longrightarrow> date_shape v"
proof -
  assume p: "time_Parse v = Inr t"
  then have l: "4 \<le> length v" and d0: "isDigit v 0"
    by (auto simp: time_Parse_def Let_def split: if_splits)
  from p l d0 obtain year where y: "atoi (take 4 v) = Some year"
    by (auto simp: time_Parse_def Let_def split: if_splits option.splits)
  from atoi_four[OF l d0 y] obtain a b c d r where
    v: "v = a # b # c # d # r" and dg: "isDigitChar a" "isDigitChar b" "isDigitChar c" "isDigitChar d"
    by blast
  from p l d0 y obtain v1 where s1: "skip (drop 4 v) (CHR ''-'') = Some v1"
    by (auto simp: time_Parse_def Let_def split: if_splits option.splits)
  from p l d0 y s1 obtain month v2 where g1: "getnum v1 True = Some (month, v2)"
    by (auto simp: time_Parse_def Let_def split: if_splits option.splits)
  from p l d0 y s1 g1 obtain v3 where s2: "skip v2 (CHR ''-'') = Some v3"
    by (auto simp: time_Parse_def Let_def split: if_splits option.splits)
  from p l d0 y s1 g1 s2 obtain day v4 where g2: "getnum v3 True = Some (day, v4)"
    by (auto simp: time_Parse_def Let_def split: if_splits option.splits)
  from p l d0 y s1 g1 s2 g2 have e: "v4 = []"
    by (auto simp: time_Parse_def Let_def split: if_splits option.splits)
  from skip_Some[OF s1] v have r: "r = CHR ''-'' # v1" by simp
  from getnum_fixed[OF g1] obtain m1 m2 where
    v1: "v1 = m1 # m2 # v2" and dm: "isDigitChar m1" "isDigitChar m2" by blast
  from skip_Some[OF s2] have v2: "v2 = CHR ''-'' # v3" .
  from getnum_fixed[OF g2] e obtain d1 d2 where
    v3: "v3 = [d1, d2]" and dd: "isDigitChar d1" "isDigitChar d2" by blast
  show ?thesis
    using dg dm dd by (simp add: v r v1 v2 v3 date_shape_def)
qed

section \<open>Lemmas on the traversal\<close>

lemma body_item_None:
  "item P cik u = None \<Longrightarrow>
     \<exists>l. GetFilings_body P cik formtype stop u (acc, evs) = Continue (acc, evs @ l)"
  by (auto simp: GetFilings_body_def item_def Let_def split: sum.splits if_splits)

lemma body_reject:
  "item P cik u = Some f \<Longrightarrow> \<not> passes formtype f \<Longrightarrow>
     \<exists>l. GetFilings_body P cik formtype stop u (acc, evs) = Continue (acc, evs @ l)"
  by (auto simp: GetFilings_body_def item_def passes_def Let_def split: sum.splits if_splits)

lemma body_stop:
  "item P cik u = Some f \<Longrightarrow> passes formtype f \<Longrightarrow> cutoff stop (EdgarTime (Filing f)) \<Longrightarrow>
     \<exists>l. GetFilings_body P cik formtype stop u (acc, evs) = Return (acc, evs @ l)"
  by (auto simp: GetFilings_body_def item_def passes_def Let_def split: sum.splits if_splits)

lemma body_keep:
  "item P cik u = Some f \<Longrightarrow> passes formtype f \<Longrightarrow> \<not> cutoff stop (EdgarTime (Filing f)) \<Longrightarrow>
     \<exists>l. GetFilings_body P cik formtype stop u (acc, evs) = Continue (acc @ [stamp f], evs @ l)"
  by (auto simp: GetFilings_body_def item_def passes_def Let_def split: sum.splits if_splits)

lemma range_filings:
  "fst (state_of (GetFilings_range P cik formtype stop urls (acc, evs))) =
     acc @ selected P cik formtype stop urls"
proof (induction urls arbitrary: acc evs)
  case Nil
  show ?case by (simp add: selected_def List.map_filter_simps)
next
  case (Cons u urls)
  show ?case
  proof (cases "item P cik u")
    case None
    from body_item_None[OF None] obtain l where
      "GetFilings_body P cik formtype stop u (acc, evs) = Continue (acc, evs @ l)" by blast
    then show ?thesis
      using None by (simp add: Cons selected_def List.map_filter_simps)
  next
    case (Some f)
    show ?thesis
    proof (cases "passes formtype f")
      case False
      from body_reject[OF Some False] obtain l where
        "GetFilings_body P cik formtype stop u (acc, evs) = Continue (acc, evs @ l)" by blast
      then show ?thesis
        using Some False by (simp add: Cons selected_def List.map_filter_simps)
    next
      case True
      show ?thesis
      proof (cases "cutoff stop (EdgarTime (Filing f))")
        case c: True
        from body_stop[OF Some True c] obtain l where
          "GetFilings_body P cik formtype stop u (acc, evs) = Return (acc, evs @ l)" by blast
        then show ?thesis
          using Some True c by (simp add: selected_def List.map_filter_simps)
      next
        case c: False
        from body_keep[OF Some True c] obtain l where
          "GetFilings_body P cik formtype stop u (acc, evs) = Continue (acc @ [stamp f], evs @ l)"
          by blast
        then show ?thesis
          using Some True c by (simp add: Cons selected_def List.map_filter_simps)
      qed
    qed
  qed
qed

lemma takeWhile_all: "takeWhile (\<lambda>f. True) xs = xs"
  by (induction xs) simp_all

lemma range_append:
  "GetFilings_range P cik formtype stop (xs @ ys) st =
     (case GetFilings_range P cik formtype stop xs st of
        Return st' \<Rightarrow> Return st'
      | Continue st' \<Rightarrow> GetFilings_range P cik formtype stop ys st')"
  by (induction xs arbitrary: st) (auto split: ctrl.splits)

lemma GetFilings_ok:
  assumes "GetFilings_stop stoptime = Inr stop" "getPage P (dirURL cik) 2 = Inr dirPage"
  shows "fst (GetFilings P cik formtype stoptime) =
           (selected P cik formtype stop (findListURLs P dirPage), None)"
  using assms by (simp add: GetFilings_def Let_def range_filings)

lemma GetFilings_filings_selected:
  "\<exists>stop urls. fst (fst (GetFilings P cik formtype stoptime)) = selected P cik formtype stop urls"
proof (cases "GetFilings_stop stoptime")
  case (Inl e)
  then have "fst (fst (GetFilings P cik formtype stoptime)) = selected P cik formtype None []"
    by (simp add: GetFilings_def selected_def List.map_filter_simps)
  then show ?thesis by blast
next
  case (Inr stop)
  show ?thesis
  proof (cases "getPage P (dirURL cik) 2")
    case (Inl e)
    with Inr have "fst (fst (GetFilings P cik formtype stoptime)) = selected P cik formtype None []"
      by (simp add: GetFilings_def selected_def List.map_filter_simps)
    then show ?thesis by blast
  next
    case r: (Inr dirPage)
    from GetFilings_ok[OF Inr r] show ?thesis by (metis fst_conv)
  qed
qed

lemma item_findListURLs_update [simp]: "item (P\<lparr>findListURLs := g\<rparr>) cik = item P cik"
  by (rule ext) (simp add: item_def split: sum.splits)

lemma selected_findListURLs_update [simp]:
  "selected (P\<lparr>findListURLs := g\<rparr>) cik formtype stop urls = selected P cik formtype stop urls"
  by (simp add: selected_def)

lemma selected_skip:
  "item P cik u = None \<or> (\<exists>f. item P cik u = Some f \<and> \<not> passes formtype f) \<Longrightarrow>
     selected P cik formtype stop (pre @ u # post) = selected P cik formtype stop (pre @ post)"
  by (auto simp: selected_def List.map_filter_def)

lemma ex_parse: "time_Parse ''2023-02-01'' = Inr 1675209600000000000"
  by (simp add: time_Parse_def isDigit_def atoi_def getnum_def skip_def daysIn_def time_Date_def
      isLeap_def daysBefore_def digitVal_def)

lemma ex_dates:
  "time_Date 2023 3 1 = 1677628800000000000"
  "time_Date 2023 2 1 = 1675209600000000000"
  "time_Date 2023 1 1 = 1672531200000000000"
  by (simp_all add: time_Date_def isLeap_def daysBefore_def)

lemma ex_range:
  "GetFilings_range ex_pages ''320193'' [] (Some 1675209600000000000) [''A'', ''B'']
      ([], [GetPage (dirURL ''320193'') 2]) =
   Continue ([stamp (ex_filing ''10-K'' (time_Date 2023 3 1)), stamp (ex_filing ''8-K'' (time_Date 2023 2 1))],
     [GetPage (dirURL ''320193'') 2, GetPage ''A'' 2, BuildFiling ''320193'' ''idxA'',
      FmtPrintln [V (stamp (ex_filing ''10-K'' (time_Date 2023 3 1)))],
      GetPage ''B'' 2, BuildFiling ''320193'' ''idxB'',
      FmtPrintln [V (stamp (ex_filing ''8-K'' (time_Date 2023 2 1)))]])"
  by (simp add: GetFilings_body_def ex_pages_def cutoff_def Before_def ex_filing_def ex_dates Let_def dirURL_def)

lemma GetFilings_stop_isl:
  "isl (GetFilings_stop stoptime) = (stoptime \<noteq> [] \<and> isl (time_Parse stoptime))"
  by (simp add: GetFilings_stop_def split: sum.splits)

lemma GetFilings_error:
  "(snd (fst (GetFilings P cik formtype stoptime)) \<noteq> None) =
     (isl (GetFilings_stop stoptime) \<or> isl (getPage P (dirURL cik) 2))"
  by (simp add: GetFilings_def Let_def split: sum.splits)

lemma ex_parse_bad: "time_Parse ''2023-02-30'' = Inl (ParseError ''2006-01-02'' ''2023-02-30'')"
  by (simp add: time_Parse_def isDigit_def atoi_def getnum_def skip_def daysIn_def time_Date_def
      isLeap_def daysBefore_def digitVal_def)

lemma stamp_fields [simp]:
  "FormType (Filing (stamp f)) = FormType (Filing f)"
  "EdgarTime (Filing (stamp f)) = EdgarTime (Filing f)"
  "Filing.Symbol (Filing (stamp f)) = Filing.Symbol (Filing f)"
  "AllSymbols (Filing (stamp f)) = [Filing.Symbol (Filing f)]"
  "Docs (stamp f) = Docs f"
  by (simp_all add: stamp_def)

lemma selected_passes: "f \<in> set (selected P cik formtype stop urls) \<Longrightarrow> passes formtype f"
  by (auto simp: selected_def passes_def dest!: set_takeWhileD)

lemma selected_stamped:
  "f \<in> set (selected P cik formtype stop urls) \<Longrightarrow> AllSymbols (Filing f) = [Filing.Symbol (Filing f)]"
  by (auto simp: selected_def)

lemma body_appends:
  "fst (state_of (GetFilings_body P cik formtype stop u (acc, evs))) = acc
   \<or> (\<exists>docsPage filing. getPage P u 2 = Inr docsPage
        \<and> buildFiling P cik (findIdxURL P docsPage) = Inr filing
        \<and> GetFilings_body P cik formtype stop u (acc, evs) =
            Continue (acc @ [filing\<lparr>Filing := (Filing filing)\<lparr>AllSymbols := [Filing.Symbol (Filing filing)]\<rparr>\<rparr>],
              evs @ [GetPage u 2, BuildFiling cik (findIdxURL P docsPage),
                     FmtPrintln [V (filing\<lparr>Filing := (Filing filing)\<lparr>AllSymbols := [Filing.Symbol (Filing filing)]\<rparr>\<rparr>)]]))"
  by (auto simp: GetFilings_body_def Let_def stamp_def split: sum.splits)

section \<open>Lemmas on the filer methods\<close>

lemma index_empty_iff:
  "(index m k = []) = (map_of m k = None \<or> map_of m k = Some [])"
  by (simp add: index_def split: option.splits)

lemma ex_with_token:
  "snd (GetPublicCompaniesWithHeaders (ex_http (ex_info [] [])) [(''token'', ''pk_1'')] [])
     = [HttpNewRequest ''GET'' (iexSymbolsURL @ ''?''), HttpDo (iexSymbolsURL @ ''?''), BodyClose]"
  by (simp add: GetPublicCompaniesWithHeaders_def index_def ex_http_def Let_def)

section \<open>The claims\<close>

text \<open>
  C1. When a cutoff was parsed from a non-empty stop time and the traversal reaches a URL
  whose filing is built and passes the form-type test: if the filing's time is strictly
  before the cutoff, the call returns the filings accumulated so far with no error, the
  filing itself not among them, and nothing is fetched afterwards; a time equal to the
  cutoff is not before it; and a filing not before the cutoff is stamped and appended, and
  the traversal goes on with the URLs that follow.
\<close>

theorem GetFilings_cutoff:
  assumes "stoptime \<noteq> []" and "time_Parse stoptime = Inr c"
    and "getPage P (dirURL cik) 2 = Inr dirPage"
    and "findListURLs P dirPage = pre @ u # post"
    and "GetFilings_range P cik formtype (Some c) pre ([], [GetPage (dirURL cik) 2])
           = Continue (acc, evs)"
    and "getPage P u 2 = Inr docsPage" and "findIdxURL P docsPage \<noteq> []"
    and "buildFiling P cik (findIdxURL P docsPage) = Inr filing"
    and "formtype = [] \<or> FormType (Filing filing) = formtype"
  shows "(Before (EdgarTime (Filing filing)) c \<longrightarrow>
            GetFilings P cik formtype stoptime =
              ((acc, None), evs @ [GetPage u 2, BuildFiling cik (findIdxURL P docsPage)]))
       \<and> (EdgarTime (Filing filing) = c \<longrightarrow> \<not> Before (EdgarTime (Filing filing)) c)
       \<and> (\<not> Before (EdgarTime (Filing filing)) c \<longrightarrow>
            fst (GetFilings P cik formtype stoptime) =
              (fst (state_of (GetFilings_range P cik formtype (Some c) post
                 (acc @ [stamp filing],
                  evs @ [GetPage u 2, BuildFiling cik (findIdxURL P docsPage),
                         FmtPrintln [V (stamp filing)]]))), None)
            \<and> prefix (acc @ [stamp filing]) (fst (fst (GetFilings P cik formtype stoptime))))"
proof -
  have s: "GetFilings_stop stoptime = Inr (Some c)"
    using assms(1,2) by (simp add: GetFilings_stop_def)
  have b1: "Before (EdgarTime (Filing filing)) c \<Longrightarrow>
      GetFilings_body P cik formtype (Some c) u (acc, evs) =
        Return (acc, evs @ [GetPage u 2, BuildFiling cik (findIdxURL P docsPage)])"
    using assms(6-9) by (auto simp: GetFilings_body_def Let_def cutoff_def)
  have b2: "\<not> Before (EdgarTime (Filing filing)) c \<Longrightarrow>
      GetFilings_body P cik formtype (Some c) u (acc, evs) =
        Continue (acc @ [stamp filing],
          evs @ [GetPage u 2, BuildFiling cik (findIdxURL P docsPage), FmtPrintln [V (stamp filing)]])"
    using assms(6-9) by (auto simp: GetFilings_body_def Let_def cutoff_def)
  have r1: "Before (EdgarTime (Filing filing)) c \<Longrightarrow>
      GetFilings_range P cik formtype (Some c) (pre @ u # post) ([], [GetPage (dirURL cik) 2]) =
        Return (acc, evs @ [GetPage u 2, BuildFiling cik (findIdxURL P docsPage)])"
    using assms(5) b1 by (simp add: range_append)
  have r2: "\<not> Before (EdgarTime (Filing filing)) c \<Longrightarrow>
      GetFilings_range P cik formtype (Some c) (pre @ u # post) ([], [GetPage (dirURL cik) 2]) =
        GetFilings_range P cik formtype (Some c) post (acc @ [stamp filing],
          evs @ [GetPage u 2, BuildFiling cik (findIdxURL P docsPage), FmtPrintln [V (stamp filing)]])"
    using assms(5) b2 by (simp add: range_append)
  have c1: "Before (EdgarTime (Filing filing)) c \<longrightarrow>
            GetFilings P cik formtype stoptime =
              ((acc, None), evs @ [GetPage u 2, BuildFiling cik (findIdxURL P docsPage)])"
    using s assms(3,4) r1 by (simp add: GetFilings_def Let_def)
  have c2: "EdgarTime (Filing filing) = c \<longrightarrow> \<not> Before (EdgarTime (Filing filing)) c"
    by (simp add: Before_def)
  have c3: "\<not> Before (EdgarTime (Filing filing)) c \<longrightarrow>
            fst (GetFilings P cik formtype stoptime) =
              (fst (state_of (GetFilings_range P cik formtype (Some c) post
                 (acc @ [stamp filing],
                  evs @ [GetPage u 2, BuildFiling cik (findIdxURL P docsPage),
                         FmtPrintln [V (stamp filing)]]))), None)"
    using s assms(3,4) r2 by (simp add: GetFilings_def Let_def)
  have c4: "\<not> Before (EdgarTime (Filing filing)) c \<longrightarrow>
      prefix (acc @ [stamp filing]) (fst (fst (GetFilings P cik formtype stoptime)))"
    using c3 by (simp add: range_filings)
  from c1 c2 c3 c4 show ?thesis by blast
qed

theorem GetFilings_cutoff_witness:
  "GetFilings ex_pages ''320193'' [] ''2023-02-01'' =
     (([stamp (ex_filing ''10-K'' (time_Date 2023 3 1)), stamp (ex_filing ''8-K'' (time_Date 2023 2 1))], None),
      [GetPage (dirURL ''320193'') 2, GetPage ''A'' 2, BuildFiling ''320193'' ''idxA'',
       FmtPrintln [V (stamp (ex_filing ''10-K'' (time_Date 2023 3 1)))],
       GetPage ''B'' 2, BuildFiling ''320193'' ''idxB'',
       FmtPrintln [V (stamp (ex_filing ''8-K'' (time_Date 2023 2 1)))],
       GetPage ''C'' 2, BuildFiling ''320193'' ''idxC''])"
proof -
  have h1: "''2023-02-01'' \<noteq> []" by simp
  have h3: "getPage ex_pages (dirURL ''320193'') 2 = Inr ''dir''"
    by (simp add: ex_pages_def)
  have h4: "findListURLs ex_pages ''dir'' = [''A'', ''B''] @ ''C'' # []"
    by (simp add: ex_pages_def)
  have h6: "getPage ex_pages ''C'' 2 = Inr ''pageC''"
    by (simp add: ex_pages_def dirURL_def)
  have h7: "findIdxURL ex_pages ''pageC'' \<noteq> []"
    by (simp add: ex_pages_def)
  have h8: "buildFiling ex_pages ''320193'' (findIdxURL ex_pages ''pageC'')
              = Inr (ex_filing ''10-K'' (time_Date 2023 1 1))"
    by (simp add: ex_pages_def)
  have h9: "[] = [] \<or> FormType (Filing (ex_filing ''10-K'' (time_Date 2023 1 1))) = []"
    by simp
  have b: "Before (EdgarTime (Filing (ex_filing ''10-K'' (time_Date 2023 1 1)))) 1675209600000000000"
    by (simp add: ex_filing_def ex_dates Before_def)
  have i: "findIdxURL ex_pages ''pageC'' = ''idxC''"
    by (simp add: ex_pages_def)
  from GetFilings_cutoff [OF h1 ex_parse h3 h4 ex_range h6 h7 h8 h9] b i
  show ?thesis by simp
qed

text \<open>
  C2. A URL whose page cannot be fetched, whose page has no index link or whose filing
  cannot be built is logged and skipped: the iteration leaves the filings as they are and
  goes on, and the call returns, with no error, the filings selected from the other URLs
  in their order, which is what it returns for the listing without that URL.
\<close>

theorem GetFilings_item_failure:
  assumes "GetFilings_stop stoptime = Inr stop"
    and "getPage P (dirURL cik) 2 = Inr dirPage"
    and "findListURLs P dirPage = pre @ u # post"
    and "(\<exists>e. getPage P u 2 = Inl e)
         \<or> (\<exists>p. getPage P u 2 = Inr p
               \<and> (findIdxURL P p = [] \<or> (\<exists>e. buildFiling P cik (findIdxURL P p) = Inl e)))"
  shows "(\<forall>acc evs. \<exists>l a. GetFilings_body P cik formtype stop u (acc, evs)
                          = Continue (acc, evs @ l @ [LogPrintln a]))
       \<and> fst (GetFilings P cik formtype stoptime) = (selected P cik formtype stop (pre @ post), None)
       \<and> fst (GetFilings P cik formtype stoptime)
           = fst (GetFilings (P\<lparr>findListURLs := \<lambda>_. pre @ post\<rparr>) cik formtype stoptime)
       \<and> (formtype = [] \<and> stoptime = [] \<longrightarrow>
            fst (GetFilings P cik formtype stoptime)
              = (map stamp (List.map_filter (item P cik) (pre @ post)), None))"
proof -
  have n: "item P cik u = None"
    using assms(4) by (auto simp: item_def)
  have a: "\<exists>l a. GetFilings_body P cik formtype stop u (acc, evs)
                          = Continue (acc, evs @ l @ [LogPrintln a])" for acc evs
  proof -
    from assms(4) consider
        (fetch) e where "getPage P u 2 = Inl e"
      | (link) p where "getPage P u 2 = Inr p" "findIdxURL P p = []"
      | (build) p e where "getPage P u 2 = Inr p" "findIdxURL P p \<noteq> []"
          "buildFiling P cik (findIdxURL P p) = Inl e"
      by blast
    then show ?thesis
    proof cases
      case fetch
      then have "GetFilings_body P cik formtype stop u (acc, evs)
          = Continue (acc, evs @ [GetPage u 2] @ [LogPrintln [S ''couldnt find page:'', E e]])"
        by (simp add: GetFilings_body_def)
      then show ?thesis by blast
    next
      case link
      then have "GetFilings_body P cik formtype stop u (acc, evs)
          = Continue (acc, evs @ [GetPage u 2] @ [LogPrintln [S ''couldnt regex idx url'']])"
        by (simp add: GetFilings_body_def)
      then show ?thesis by blast
    next
      case build
      then have "GetFilings_body P cik formtype stop u (acc, evs)
          = Continue (acc, evs @ [GetPage u 2, BuildFiling cik (findIdxURL P p)] @ [LogPrintln [E e]])"
        by (simp add: GetFilings_body_def)
      then show ?thesis by blast
    qed
  qed
  have b: "fst (GetFilings P cik formtype stoptime) = (selected P cik formtype stop (pre @ post), None)"
    using GetFilings_ok[OF assms(1,2)] assms(3) n by (simp add: selected_skip)
  have "getPage (P\<lparr>findListURLs := \<lambda>_. pre @ post\<rparr>) (dirURL cik) 2 = Inr dirPage"
    using assms(2) by simp
  from GetFilings_ok[OF assms(1) this]
  have c: "fst (GetFilings (P\<lparr>findListURLs := \<lambda>_. pre @ post\<rparr>) cik formtype stoptime)
             = (selected P cik formtype stop (pre @ post), None)"
    by simp
  have d: "formtype = [] \<and> stoptime = [] \<longrightarrow>
            fst (GetFilings P cik formtype stoptime)
              = (map stamp (List.map_filter (item P cik) (pre @ post)), None)"
  proof
    assume e: "formtype = [] \<and> stoptime = []"
    with assms(1) have "stop = None" by (simp add: GetFilings_stop_def)
    with e b show "fst (GetFilings P cik formtype stoptime)
              = (map stamp (List.map_filter (item P cik) (pre @ post)), None)"
      by (simp add: selected_def passes_def cutoff_def takeWhile_all)
  qed
  from a b c d show ?thesis by simp
qed

theorem GetFilings_item_failure_witness:
  "fst (GetFilings ex_pages_B_down ''320193'' [] []) =
     ([stamp (ex_filing ''10-K'' (time_Date 2023 3 1)), stamp (ex_filing ''10-K'' (time_Date 2023 1 1))], None)"
proof -
  have h1: "GetFilings_stop [] = Inr None" by (simp add: GetFilings_stop_def)
  have h2: "getPage ex_pages_B_down (dirURL ''320193'') 2 = Inr ''dir''"
    by (simp add: ex_pages_B_down_def ex_pages_def dirURL_def)
  have h3: "findListURLs ex_pages_B_down ''dir'' = [''A''] @ ''B'' # [''C'']"
    by (simp add: ex_pages_B_down_def ex_pages_def)
  have h4: "(\<exists>e. getPage ex_pages_B_down ''B'' 2 = Inl e)
         \<or> (\<exists>p. getPage ex_pages_B_down ''B'' 2 = Inr p
               \<and> (findIdxURL ex_pages_B_down p = []
                  \<or> (\<exists>e. buildFiling ex_pages_B_down ''320193'' (findIdxURL ex_pages_B_down p) = Inl e)))"
    by (simp add: ex_pages_B_down_def)
  have s: "selected ex_pages_B_down ''320193'' [] None ([''A''] @ [''C'']) =
     [stamp (ex_filing ''10-K'' (time_Date 2023 3 1)), stamp (ex_filing ''10-K'' (time_Date 2023 1 1))]"
    by (simp add: selected_def List.map_filter_simps item_def ex_pages_B_down_def ex_pages_def
        dirURL_def passes_def cutoff_def)
  from GetFilings_item_failure [OF h1 h2 h3 h4, of "[]"] s show ?thesis by simp
qed

text \<open>
  C3. The call returns an error exactly when the stop time is non-empty and does not parse,
  or the fetch of the filer's directory page fails. A parse failure returns its error
  with no filings and before any fetch; a non-empty stop time that has not the shape of
  four digits, two digits and two digits with hyphens between does not parse; a failed
  directory fetch returns its error; and otherwise the selected filings are returned
  with no error.
\<close>

theorem GetFilings_error_iff:
  "((snd (fst (GetFilings P cik formtype stoptime)) \<noteq> None) =
      ((stoptime \<noteq> [] \<and> isl (time_Parse stoptime)) \<or> isl (getPage P (dirURL cik) 2)))
   \<and> (\<forall>e. stoptime \<noteq> [] \<and> time_Parse stoptime = Inl e \<longrightarrow>
          GetFilings P cik formtype stoptime = (([], Some e), []))
   \<and> (stoptime \<noteq> [] \<and> \<not> date_shape stoptime \<longrightarrow> isl (time_Parse stoptime))
   \<and> (\<forall>e. (stoptime = [] \<or> \<not> isl (time_Parse stoptime)) \<and> getPage P (dirURL cik) 2 = Inl e \<longrightarrow>
          GetFilings P cik formtype stoptime = (([], Some e), [GetPage (dirURL cik) 2]))
   \<and> (\<forall>stop dirPage. GetFilings_stop stoptime = Inr stop \<and> getPage P (dirURL cik) 2 = Inr dirPage \<longrightarrow>
          fst (GetFilings P cik formtype stoptime)
            = (selected P cik formtype stop (findListURLs P dirPage), None))"
proof -
  have a: "(snd (fst (GetFilings P cik formtype stoptime)) \<noteq> None) =
      ((stoptime \<noteq> [] \<and> isl (time_Parse stoptime)) \<or> isl (getPage P (dirURL cik) 2))"
    by (simp only: GetFilings_error GetFilings_stop_isl)
  have b: "\<forall>e. stoptime \<noteq> [] \<and> time_Parse stoptime = Inl e \<longrightarrow>
          GetFilings P cik formtype stoptime = (([], Some e), [])"
    by (simp add: GetFilings_def GetFilings_stop_def)
  have c: "stoptime \<noteq> [] \<and> \<not> date_shape stoptime \<longrightarrow> isl (time_Parse stoptime)"
    using time_Parse_shape [of stoptime] by (cases "time_Parse stoptime") auto
  have d: "\<forall>e. (stoptime = [] \<or> \<not> isl (time_Parse stoptime)) \<and> getPage P (dirURL cik) 2 = Inl e \<longrightarrow>
          GetFilings P cik formtype stoptime = (([], Some e), [GetPage (dirURL cik) 2])"
    by (auto simp: GetFilings_def GetFilings_stop_def split: sum.splits)
  have e: "\<forall>stop dirPage. GetFilings_stop stoptime = Inr stop \<and> getPage P (dirURL cik) 2 = Inr dirPage \<longrightarrow>
          fst (GetFilings P cik formtype stoptime)
            = (selected P cik formtype stop (findListURLs P dirPage), None)"
    using GetFilings_ok by blast
  from a b c d e show ?thesis by blast
qed

theorem GetFilings_error_iff_witness:
  "GetFilings ex_pages ''320193'' [] ''2023-02-30''
      = (([], Some (ParseError ''2006-01-02'' ''2023-02-30'')), [])
   \<and> date_shape ''2023-02-30''
   \<and> \<not> date_shape ''Feb 1 2023''
   \<and> isl (time_Parse ''Feb 1 2023'')
   \<and> snd (fst (GetFilings ex_pages ''320193'' [] ''Feb 1 2023'')) \<noteq> None
   \<and> snd (fst (GetFilings ex_pages ''320193'' [] ''2023-02-01'')) = None
   \<and> GetFilings ex_pages ''1'' [] [] = (([], Some (Foreign ''not found'')), [GetPage (dirURL ''1'') 2])"
proof -
  have s1: "date_shape ''2023-02-30''" by (simp add: date_shape_def isDigitChar_def)
  have s2: "\<not> date_shape ''Feb 1 2023''" by (simp add: date_shape_def isDigitChar_def)
  have g: "getPage ex_pages (dirURL ''320193'') 2 = Inr ''dir''" by (simp add: ex_pages_def)
  have g1: "getPage ex_pages (dirURL ''1'') 2 = Inl (Foreign ''not found'')"
    by (simp add: ex_pages_def dirURL_def)
  from GetFilings_error_iff [of ex_pages "''320193''" "[]" "''2023-02-30''"] ex_parse_bad
  have a: "GetFilings ex_pages ''320193'' [] ''2023-02-30''
      = (([], Some (ParseError ''2006-01-02'' ''2023-02-30'')), [])" by simp
  from GetFilings_error_iff [of ex_pages "''320193''" "[]" "''Feb 1 2023''"] s2
  have b: "isl (time_Parse ''Feb 1 2023'')
     \<and> snd (fst (GetFilings ex_pages ''320193'' [] ''Feb 1 2023'')) \<noteq> None" by simp
  from GetFilings_error_iff [of ex_pages "''320193''" "[]" "''2023-02-01''"] ex_parse g
  have c: "snd (fst (GetFilings ex_pages ''320193'' [] ''2023-02-01'')) = None" by simp
  from GetFilings_error_iff [of ex_pages "''1''" "[]" "[]"] g1
  have d: "GetFilings ex_pages ''1'' [] [] = (([], Some (Foreign ''not found'')), [GetPage (dirURL ''1'') 2])"
    by simp
  from a s1 s2 b c d show ?thesis by blast
qed

text \<open>
  C4. When the query parameters have no entry for the key token, or an empty one, the
  call returns the error that asks for the token, and it has no event: no request is
  built and none is sent.
\<close>

theorem GetPublicCompaniesWithHeaders_no_token:
  assumes "map_of queryParameters ''token'' = None \<or> map_of queryParameters ''token'' = Some []"
  shows "GetPublicCompaniesWithHeaders H queryParameters headers
           = (([], Some (Errorf tokenMessage [])), [])"
  using assms by (simp add: GetPublicCompaniesWithHeaders_def index_empty_iff)

theorem GetPublicCompaniesWithHeaders_no_token_witness:
  "GetPublicCompaniesWithHeaders (ex_http (ex_info [] [])) [(''filter'', ''symbol''), (''token'', [])]
       [(''User-Agent'', ''edgr'')]
     = (([], Some (Errorf tokenMessage [])), [])
   \<and> GetPublicCompaniesWithHeaders (ex_http (ex_info [] [])) [(''filter'', ''symbol'')] []
     = (([], Some (Errorf tokenMessage [])), [])"
proof -
  have h1: "map_of [(''filter'', ''symbol''), (''token'', [])] ''token'' = None
            \<or> map_of [(''filter'', ''symbol''), (''token'', [])] ''token'' = Some []"
    by simp
  have h2: "map_of [(''filter'', ''symbol'')] ''token'' = None
            \<or> map_of [(''filter'', ''symbol'')] ''token'' = Some []"
    by simp
  from GetPublicCompaniesWithHeaders_no_token [OF h1] GetPublicCompaniesWithHeaders_no_token [OF h2]
  show ?thesis by blast
qed

text \<open>
  C5. After a feed was decoded: an empty CIK gives the error that names the CIK; a
  non-empty CIK with an empty name gives the error that names the name; with both
  non-empty the filer holds the decoded CIK, SIC, SIC description and name and the symbol
  of the caller, whether or not the SIC fields are empty. When both CIK and name are empty
  the CIK is checked first, so the error names the CIK and not the name.
\<close>

theorem GetFilerWithHeaders_validation:
  assumes "http_NewRequest H ''GET'' (secCompanyURL symbol) = Inr req0"
    and "client_Do H (fold (\<lambda>(k, v) r. Header_Set H r k v) headers req0) = Inr resp"
    and "xml_Decode H resp = Inr feed"
  shows "(secFilerInfo.CIK (Info feed) = [] \<longrightarrow>
            fst (GetFilerWithHeaders H symbol headers)
              = (None, Some (Errorf ''no cik found in response data'' [])))
       \<and> (secFilerInfo.CIK (Info feed) \<noteq> [] \<and> secFilerInfo.Name (Info feed) = [] \<longrightarrow>
            fst (GetFilerWithHeaders H symbol headers)
              = (None, Some (Errorf ''no name found in response data'' [])))
       \<and> (secFilerInfo.CIK (Info feed) \<noteq> [] \<and> secFilerInfo.Name (Info feed) \<noteq> [] \<longrightarrow>
            fst (GetFilerWithHeaders H symbol headers)
              = (Some \<lparr>Filer.CIK = secFilerInfo.CIK (Info feed),
                       Filer.Symbol = symbol,
                       Filer.SIC = secFilerInfo.SIC (Info feed),
                       Filer.SICDescription = secFilerInfo.SICDesc (Info feed),
                       Filer.Name = secFilerInfo.Name (Info feed)\<rparr>, None))"
  using assms by (simp add: GetFilerWithHeaders_def Let_def)

theorem GetFilerWithHeaders_validation_witness:
  "fst (GetFilerWithHeaders (ex_http (ex_info ''0000320193'' ''Apple Inc.'')) ''AAPL'' [(''User-Agent'', ''edgr'')])
     = (Some \<lparr>Filer.CIK = ''0000320193'', Filer.Symbol = ''AAPL'', Filer.SIC = [],
              Filer.SICDescription = [], Filer.Name = ''Apple Inc.''\<rparr>, None)
   \<and> fst (GetFilerWithHeaders (ex_http (ex_info ''0000320193'' [])) ''AAPL'' [])
     = (None, Some (Errorf ''no name found in response data'' []))
   \<and> fst (GetFilerWithHeaders (ex_http (ex_info [] ''Apple Inc.'')) ''AAPL'' [])
     = (None, Some (Errorf ''no cik found in response data'' []))"
proof -
  have h1: "http_NewRequest (ex_http i) ''GET'' (secCompanyURL ''AAPL'') = Inr ()" for i
    by (simp add: ex_http_def)
  have h2: "client_Do (ex_http i) (fold (\<lambda>(k, v) r. Header_Set (ex_http i) r k v) hs ()) = Inr ()" for i hs
    by (simp add: ex_http_def)
  have h3: "xml_Decode (ex_http i) () = Inr \<lparr>Info = i\<rparr>" for i
    by (simp add: ex_http_def)
  from GetFilerWithHeaders_validation [OF h1 h2 h3, of "ex_info ''0000320193'' ''Apple Inc.''" "[(''User-Agent'', ''edgr'')]"]
       GetFilerWithHeaders_validation [OF h1 h2 h3, of "ex_info ''0000320193'' []" "[]"]
       GetFilerWithHeaders_validation [OF h1 h2 h3, of "ex_info [] ''Apple Inc.''" "[]"]
  show ?thesis by (simp add: ex_info_def)
qed

text \<open>
  The feed whose CIK and name are both empty: the name is empty, and the error is the one
  that names the CIK, not the one that names the name.
\<close>

theorem GetFilerWithHeaders_both_empty_counterexample:
  "xml_Decode (ex_http (ex_info [] [])) () = Inr \<lparr>Info = ex_info [] []\<rparr>
   \<and> secFilerInfo.Name (Info \<lparr>Info = ex_info [] []\<rparr>) = []
   \<and> fst (GetFilerWithHeaders (ex_http (ex_info [] [])) ''AAPL'' [])
       = (None, Some (Errorf ''no cik found in response data'' []))
   \<and> fst (GetFilerWithHeaders (ex_http (ex_info [] [])) ''AAPL'' [])
       \<noteq> (None, Some (Errorf ''no name found in response data'' []))"
  by (simp add: GetFilerWithHeaders_def ex_http_def ex_info_def Let_def)

text \<open>
  C6. With a non-empty form type, every filing returned has exactly that form type. A
  filing that was built with another form type is skipped: the iteration records the fetch
  and the build and nothing else, no line is logged, the filings stay as they are, and the
  call returns what is selected from the other URLs in their order.
\<close>

theorem GetFilings_formtype_filter:
  assumes "formtype \<noteq> []"
  shows "(\<forall>f \<in> set (fst (fst (GetFilings P cik formtype stoptime))). FormType (Filing f) = formtype)
   \<and> (\<forall>stop u docsPage filing acc evs.
         getPage P u 2 = Inr docsPage \<and> findIdxURL P docsPage \<noteq> []
         \<and> buildFiling P cik (findIdxURL P docsPage) = Inr filing
         \<and> FormType (Filing filing) \<noteq> formtype \<longrightarrow>
         GetFilings_body P cik formtype stop u (acc, evs)
           = Continue (acc, evs @ [GetPage u 2, BuildFiling cik (findIdxURL P docsPage)]))
   \<and> (\<forall>stop dirPage pre u post docsPage filing.
         GetFilings_stop stoptime = Inr stop \<and> getPage P (dirURL cik) 2 = Inr dirPage
         \<and> findListURLs P dirPage = pre @ u # post
         \<and> getPage P u 2 = Inr docsPage \<and> findIdxURL P docsPage \<noteq> []
         \<and> buildFiling P cik (findIdxURL P docsPage) = Inr filing
         \<and> FormType (Filing filing) \<noteq> formtype \<longrightarrow>
         fst (GetFilings P cik formtype stoptime) = (selected P cik formtype stop (pre @ post), None))"
proof -
  have a: "\<forall>f \<in> set (fst (fst (GetFilings P cik formtype stoptime))). FormType (Filing f) = formtype"
  proof
    fix f assume f: "f \<in> set (fst (fst (GetFilings P cik formtype stoptime)))"
    from GetFilings_filings_selected [of P cik formtype stoptime] obtain stop urls where
      "fst (fst (GetFilings P cik formtype stoptime)) = selected P cik formtype stop urls" by blast
    with f have "passes formtype f" by (simp add: selected_passes)
    with assms show "FormType (Filing f) = formtype" by (simp add: passes_def)
  qed
  have b: "\<forall>stop u docsPage filing acc evs.
         getPage P u 2 = Inr docsPage \<and> findIdxURL P docsPage \<noteq> []
         \<and> buildFiling P cik (findIdxURL P docsPage) = Inr filing
         \<and> FormType (Filing filing) \<noteq> formtype \<longrightarrow>
         GetFilings_body P cik formtype stop u (acc, evs)
           = Continue (acc, evs @ [GetPage u 2, BuildFiling cik (findIdxURL P docsPage)])"
    using assms by (simp add: GetFilings_body_def)
  have c: "fst (GetFilings P cik formtype stoptime) = (selected P cik formtype stop (pre @ post), None)"
    if h: "GetFilings_stop stoptime = Inr stop" "getPage P (dirURL cik) 2 = Inr dirPage"
         "findListURLs P dirPage = pre @ u # post"
         "getPage P u 2 = Inr docsPage" "findIdxURL P docsPage \<noteq> []"
         "buildFiling P cik (findIdxURL P docsPage) = Inr filing"
         "FormType (Filing filing) \<noteq> formtype"
    for stop dirPage pre u post docsPage filing
  proof -
    have "item P cik u = Some filing" using h(4-6) by (simp add: item_def)
    moreover have "\<not> passes formtype filing" using h(7) assms by (simp add: passes_def)
    ultimately have "selected P cik formtype stop (pre @ u # post) = selected P cik formtype stop (pre @ post)"
      by (simp add: selected_skip)
    with GetFilings_ok [OF h(1,2)] h(3) show ?thesis by simp
  qed
  from a b c show ?thesis by blast
qed

theorem GetFilings_formtype_filter_witness:
  "fst (GetFilings ex_pages ''320193'' ''10-K'' []) =
     ([stamp (ex_filing ''10-K'' (time_Date 2023 3 1)), stamp (ex_filing ''10-K'' (time_Date 2023 1 1))], None)
   \<and> list_all (\<lambda>f. FormType (Filing f) = ''10-K'') (fst (fst (GetFilings ex_pages ''320193'' ''10-K'' [])))
   \<and> GetFilings_body ex_pages ''320193'' ''10-K'' None ''B'' ([], [])
       = Continue ([], [GetPage ''B'' 2, BuildFiling ''320193'' ''idxB''])"
proof -
  have n: "''10-K'' \<noteq> []" by simp
  note t = GetFilings_formtype_filter [OF n, of ex_pages "''320193''" "[]"]
  have h1: "GetFilings_stop [] = Inr None" by (simp add: GetFilings_stop_def)
  have h2: "getPage ex_pages (dirURL ''320193'') 2 = Inr ''dir''" by (simp add: ex_pages_def)
  have h3: "findListURLs ex_pages ''dir'' = [''A''] @ ''B'' # [''C'']" by (simp add: ex_pages_def)
  have h4: "getPage ex_pages ''B'' 2 = Inr ''pageB''" by (simp add: ex_pages_def dirURL_def)
  have h5: "findIdxURL ex_pages ''pageB'' = ''idxB''" by (simp add: ex_pages_def)
  have h6: "buildFiling ex_pages ''320193'' ''idxB'' = Inr (ex_filing ''8-K'' (time_Date 2023 2 1))"
    by (simp add: ex_pages_def)
  have h7: "FormType (Filing (ex_filing ''8-K'' (time_Date 2023 2 1))) \<noteq> ''10-K''"
    by (simp add: ex_filing_def)
  have s: "selected ex_pages ''320193'' ''10-K'' None ([''A''] @ [''C'']) =
     [stamp (ex_filing ''10-K'' (time_Date 2023 3 1)), stamp (ex_filing ''10-K'' (time_Date 2023 1 1))]"
    by (simp add: selected_def List.map_filter_simps item_def ex_pages_def
        dirURL_def passes_def cutoff_def ex_filing_def)
  from t have a: "list_all (\<lambda>f. FormType (Filing f) = ''10-K'') (fst (fst (GetFilings ex_pages ''320193'' ''10-K'' [])))"
    unfolding list_all_iff by blast
  from t h4 h5 h6 h7 have b: "GetFilings_body ex_pages ''320193'' ''10-K'' None ''B'' ([], [])
       = Continue ([], [] @ [GetPage ''B'' 2, BuildFiling ''320193'' ''idxB''])"
    by (metis list.distinct(1))
  from t h1 h2 h3 h4 h5 h6 h7 have c: "fst (GetFilings ex_pages ''320193'' ''10-K'' []) =
      (selected ex_pages ''320193'' ''10-K'' None ([''A''] @ [''C'']), None)"
    by (metis list.distinct(1))
  from a b c s show ?thesis by simp
qed

text \<open>
  C7. When the directory page has no link to a sub-directory, the call returns no filings
  and no error, after the one fetch of the directory page.
\<close>

theorem GetFilings_no_matches:
  assumes "GetFilings_stop stoptime = Inr stop"
    and "getPage P (dirURL cik) 2 = Inr dirPage"
    and "findListURLs P dirPage = []"
  shows "GetFilings P cik formtype stoptime = (([], None), [GetPage (dirURL cik) 2])"
  using assms by (simp add: GetFilings_def)

theorem GetFilings_no_matches_witness:
  "GetFilings ex_pages_empty ''320193'' ''10-K'' ''2023-02-01''
     = (([], None), [GetPage (dirURL ''320193'') 2])"
proof -
  have h1: "GetFilings_stop ''2023-02-01'' = Inr (Some 1675209600000000000)"
    by (simp add: GetFilings_stop_def ex_parse)
  have h2: "getPage ex_pages_empty (dirURL ''320193'') 2 = Inr ''dir''"
    by (simp add: ex_pages_empty_def ex_pages_def)
  have h3: "findListURLs ex_pages_empty ''dir'' = []"
    by (simp add: ex_pages_empty_def)
  from GetFilings_no_matches [OF h1 h2 h3] show ?thesis .
qed

text \<open>
  C8. \<^verbatim>\<open>GetFilings\<close> takes a CIK, a form type and a stop time, and no symbol. Every
  filing returned has as its list of symbols the one-element list of its own symbol field,
  as the builder left that field; and an iteration that appends a filing appends the built
  filing with exactly that list written into it, whatever list the builder had left there.
\<close>

theorem GetFilings_AllSymbols:
  "(\<forall>f \<in> set (fst (fst (GetFilings P cik formtype stoptime))).
       AllSymbols (Filing f) = [Filing.Symbol (Filing f)])
   \<and> (\<forall>stop u acc evs.
        fst (state_of (GetFilings_body P cik formtype stop u (acc, evs))) = acc
        \<or> (\<exists>docsPage filing. getPage P u 2 = Inr docsPage
             \<and> buildFiling P cik (findIdxURL P docsPage) = Inr filing
             \<and> GetFilings_body P cik formtype stop u (acc, evs) =
                 Continue (acc @ [filing\<lparr>Filing := (Filing filing)\<lparr>AllSymbols := [Filing.Symbol (Filing filing)]\<rparr>\<rparr>],
                   evs @ [GetPage u 2, BuildFiling cik (findIdxURL P docsPage),
                          FmtPrintln [V (filing\<lparr>Filing := (Filing filing)\<lparr>AllSymbols := [Filing.Symbol (Filing filing)]\<rparr>\<rparr>)]])))"
proof -
  have a: "\<forall>f \<in> set (fst (fst (GetFilings P cik formtype stoptime))).
       AllSymbols (Filing f) = [Filing.Symbol (Filing f)]"
  proof
    fix f assume f: "f \<in> set (fst (fst (GetFilings P cik formtype stoptime)))"
    from GetFilings_filings_selected [of P cik formtype stoptime] obtain stop urls where
      "fst (fst (GetFilings P cik formtype stoptime)) = selected P cik formtype stop urls" by blast
    with f show "AllSymbols (Filing f) = [Filing.Symbol (Filing f)]" by (simp add: selected_stamped)
  qed
  from a body_appends [of P cik formtype] show ?thesis by blast
qed

theorem GetFilings_AllSymbols_witness:
  "map (\<lambda>f. AllSymbols (Filing f)) (fst (fst (GetFilings ex_pages_syms ''320193'' [] [])))
     = [[''MSFT''], [''MSFT''], [''MSFT'']]
   \<and> list_all (\<lambda>f. AllSymbols (Filing f) = [Filing.Symbol (Filing f)])
         (fst (fst (GetFilings ex_pages_syms ''320193'' [] [])))"
proof -
  have "map (\<lambda>f. AllSymbols (Filing f)) (fst (fst (GetFilings ex_pages_syms ''320193'' [] [])))
     = [[''MSFT''], [''MSFT''], [''MSFT'']]"
    by (simp add: GetFilings_def GetFilings_stop_def GetFilings_body_def ex_pages_syms_def
        ex_pages_def dirURL_def cutoff_def stamp_def Let_def)
  moreover from GetFilings_AllSymbols [of ex_pages_syms "''320193''" "[]" "[]"]
  have "list_all (\<lambda>f. AllSymbols (Filing f) = [Filing.Symbol (Filing f)])
         (fst (fst (GetFilings ex_pages_syms ''320193'' [] [])))"
    unfolding list_all_iff by blast
  ultimately show ?thesis by blast
qed

text \<open>
  The stamped symbol is not fixed by the query: the same CIK, form type and stop time give
  the lists of AAPL, of MSFT or of the empty symbol, as the builder fills the symbol field.
\<close>

theorem GetFilings_AllSymbols_counterexample:
  "map (AllSymbols \<circ> Filing) (fst (fst (GetFilings ex_pages ''320193'' [] [])))
     = [[''AAPL''], [''AAPL''], [''AAPL'']]
   \<and> map (AllSymbols \<circ> Filing) (fst (fst (GetFilings ex_pages_syms ''320193'' [] [])))
     = [[''MSFT''], [''MSFT''], [''MSFT'']]
   \<and> map (AllSymbols \<circ> Filing) (fst (fst (GetFilings ex_pages_nosym ''320193'' [] [])))
     = [[[]], [[]], [[]]]
   \<and> map (AllSymbols \<circ> Filing) (fst (fst (GetFilings ex_pages ''320193'' [] [])))
     \<noteq> map (AllSymbols \<circ> Filing) (fst (fst (GetFilings ex_pages_syms ''320193'' [] [])))"
proof -
  have a: "map (AllSymbols \<circ> Filing) (fst (fst (GetFilings ex_pages ''320193'' [] [])))
     = [[''AAPL''], [''AAPL''], [''AAPL'']]"
    by (simp add: GetFilings_def GetFilings_stop_def GetFilings_body_def ex_pages_def
        ex_filing_def dirURL_def cutoff_def stamp_def Let_def)
  have b: "map (AllSymbols \<circ> Filing) (fst (fst (GetFilings ex_pages_syms ''320193'' [] [])))
     = [[''MSFT''], [''MSFT''], [''MSFT'']]"
    by (simp add: GetFilings_def GetFilings_stop_def GetFilings_body_def ex_pages_syms_def
        ex_pages_def dirURL_def cutoff_def stamp_def Let_def)
  have c: "map (AllSymbols \<circ> Filing) (fst (fst (GetFilings ex_pages_nosym ''320193'' [] [])))
     = [[[]], [[]], [[]]]"
    by (simp add: GetFilings_def GetFilings_stop_def GetFilings_body_def ex_pages_nosym_def
        ex_pages_def dirURL_def cutoff_def stamp_def Let_def)
  from a b c show ?thesis by simp
qed

text \<open>
  C10. \<^verbatim>\<open>GetPublicCompanies\<close> passes empty maps on, so it always returns the error that
  asks for the token, and it has no event.
\<close>

theorem GetPublicCompanies_no_token:
  "GetPublicCompanies H = (([], Some (Errorf tokenMessage [])), [])"
  by (simp add: GetPublicCompanies_def GetPublicCompaniesWithHeaders_def index_def)

end
